theory Spec2Isabelle
  imports Complex_Main "HOL-Library.Sublist" "HOL-Library.AList"
begin

section \<open>JavaScript values\<close>

text \<open>
  The render service is one Express route, \<^verbatim>\<open>app.post('/render', ...)\<close>. Its handler
  inspects JavaScript values only through truthiness, \<^verbatim>\<open>typeof\<close>, property reads and
  JSON serialisation, so values are modelled as a tree datatype with exactly these
  observations. Numbers are IEEE doubles in the source; they are never computed with by
  the handler, only tested for truthiness, and are kept as a finite real or one of the
  three special values. A function value is opaque and identified by its source text.
\<close>

datatype jsnum = Finite real | PosInf | NegInf | NaN

datatype jsval =
    JUndefined
  | JNull
  | JBool bool
  | JNum jsnum
  | JBigInt int
  | JStr string
  | JSymbol string
  | JFun string
  | JArr "jsval list"
  | JObj "(string \<times> jsval) list"

text \<open>The \<^verbatim>\<open>typeof\<close> operator.\<close>

fun typeof :: "jsval \<Rightarrow> string" where
  "typeof JUndefined = ''undefined''"
| "typeof JNull = ''object''"
| "typeof (JBool b) = ''boolean''"
| "typeof (JNum n) = ''number''"
| "typeof (JBigInt n) = ''bigint''"
| "typeof (JStr s) = ''string''"
| "typeof (JSymbol d) = ''symbol''"
| "typeof (JFun f) = ''function''"
| "typeof (JArr xs) = ''object''"
| "typeof (JObj kvs) = ''object''"

text \<open>
  Truthiness, as \<^verbatim>\<open>!v\<close> and \<^verbatim>\<open>a || b\<close> read it: the falsy values are
  \<^verbatim>\<open>undefined\<close>, \<^verbatim>\<open>null\<close>, \<^verbatim>\<open>false\<close>, zero, \<^verbatim>\<open>NaN\<close>, \<^verbatim>\<open>0n\<close> and the empty string.
\<close>

fun truthy :: "jsval \<Rightarrow> bool" where
  "truthy JUndefined = False"
| "truthy JNull = False"
| "truthy (JBool b) = b"
| "truthy (JNum n) = (n \<noteq> NaN \<and> n \<noteq> Finite 0)"
| "truthy (JBigInt n) = (n \<noteq> 0)"
| "truthy (JStr s) = (s \<noteq> [])"
| "truthy (JSymbol d) = True"
| "truthy (JFun f) = True"
| "truthy (JArr xs) = True"
| "truthy (JObj kvs) = True"

text \<open>
  Reading a named property, as the destructuring \<^verbatim>\<open>const { code, props } = ...\<close> and
  \<^verbatim>\<open>moduleObj.exports\<close> do. An object is the list of its own properties (the first binding
  of a name is the one read); the names read by the handler are not array indices and
  are not defined on the prototypes of primitives, so every other value yields
  \<^verbatim>\<open>undefined\<close>.
\<close>

fun get_prop :: "jsval \<Rightarrow> string \<Rightarrow> jsval" where
  "get_prop (JObj kvs) k = (case map_of kvs k of Some v \<Rightarrow> v | None \<Rightarrow> JUndefined)"
| "get_prop _ k = JUndefined"

text \<open>The text of a string value, as the template literal \<^verbatim>\<open>`${code}...`\<close> reads it. The
  handler reaches the template only after \<^verbatim>\<open>typeof code === 'string'\<close>.\<close>

fun str_of :: "jsval \<Rightarrow> string" where
  "str_of (JStr s) = s"
| "str_of _ = []"

subsection \<open>JSON serialisation of a response\<close>

text \<open>
  \<^verbatim>\<open>res.json(obj)\<close> serialises with \<^verbatim>\<open>JSON.stringify\<close>: a property whose value is
  \<^verbatim>\<open>undefined\<close>, a function or a symbol is left out of the object, and a BigInt anywhere in
  the value makes \<^verbatim>\<open>JSON.stringify\<close> throw a TypeError.
\<close>

fun json_omitted :: "jsval \<Rightarrow> bool" where
  "json_omitted JUndefined = True"
| "json_omitted (JFun f) = True"
| "json_omitted (JSymbol d) = True"
| "json_omitted _ = False"

fun json_throws :: "jsval \<Rightarrow> bool" where
  "json_throws (JBigInt n) = True"
| "json_throws (JArr xs) = (\<exists>x \<in> set xs. json_throws x)"
| "json_throws (JObj kvs) = (\<exists>(k, v) \<in> set kvs. json_throws v)"
| "json_throws _ = False"

section \<open>Exceptions, responses and the host\<close>

text \<open>
  JavaScript can throw any value. The \<^verbatim>\<open>catch\<close> block of the handler looks at a caught
  value \<^verbatim>\<open>error\<close> in four ways only, and a thrown value is modelled by what they give:
  \<^item> \<^verbatim>\<open>console.error('Rendering error:', error)\<close> inspects the value to print it; \<open>exn_printable\<close>
    says that this returns (it throws for a value whose custom inspection throws);
  \<^item> \<^verbatim>\<open>error?.message\<close> and \<^verbatim>\<open>error?.stack\<close>;
  \<^item> \<^verbatim>\<open>String(error)\<close>, which itself throws for an object that has no usable
    \<^verbatim>\<open>toString\<close> (for instance \<^verbatim>\<open>Object.create(null)\<close>); that is \<open>None\<close>.
\<close>

record exn =
  exn_printable :: bool
  exn_message :: jsval
  exn_stack :: jsval
  exn_string :: "string option"

text \<open>An HTTP response: the status code and the members of the JSON body that were
  serialised.\<close>

record response =
  status :: nat
  payload :: "(string \<times> jsval) list"

text \<open>
  A request ends either with a response written by the handler, or with an exception that
  leaves the handler function (its promise rejects and the handler writes nothing).
\<close>

datatype outcome = Responded response | Escaped

text \<open>
  The process state a request can see and that evaluated code can reach: the component
  registry \<^verbatim>\<open>predefinedComponents\<close> (a plain object built at startup), the file system
  (path to UTF-8 content, \<open>None\<close> where \<^verbatim>\<open>fs.readFileSync\<close> throws),
  \<^verbatim>\<open>process.env.NODE_ENV\<close>, and the rest of the host (globals, module cache, clock and so
  on) as a type parameter.
\<close>

record 'h world =
  predefinedComponents :: "(string \<times> jsval) list"
  files :: "string \<Rightarrow> string option"
  node_env :: "string option"
  host :: 'h

text \<open>The values bound in the scope of the evaluated code: the module record passed first,
  then the four entries of \<^verbatim>\<open>context\<close>. \<open>Resolver\<close> is the \<^verbatim>\<open>require\<close> closure, which hands
  out the registry object itself for \<^verbatim>\<open>'@react-renderer/components'\<close> and defers to the
  host's \<^verbatim>\<open>require\<close> for every other name.\<close>

datatype binding = ModuleRecord jsval | React | Props jsval | Console | Resolver

text \<open>The calls the handler makes into libraries and the runtime, in order. The trace is
  an observation of the run; no library can read it.\<close>

datatype event =
    Transform string jsval
  | Evaluate "string list" string "binding list"
  | CreateElement jsval jsval
  | RenderToString jsval
  | ReadFile string

text \<open>
  The libraries and the runtime are not part of the repository; the handler is modelled
  over them:
  \<^item> \<open>transformSync src opts w\<close> is \<^verbatim>\<open>Babel.transformSync(src, opts)\<close> read through
    \<^verbatim>\<open>transformed?.code\<close>: an exception, or the code (\<open>None\<close> for a null result or a
    missing code); like every library call it runs in the process, so it is given the
    world and gives one back, and nothing is assumed of what it reads or writes;
  \<^item> \<open>runFunction params text args w\<close> is \<^verbatim>\<open>new Function(...params, text)\<close> applied to
    \<open>args\<close>: an exception, or, on normal completion, the module record as the evaluated
    code left it; the evaluated code has the whole host in reach, so the world comes back
    too. The props value is handed over by reference and the handler goes on with the same
    reference; writes of the evaluated code to the properties of that object are not
    tracked;
  \<^item> \<open>createElement\<close> is \<^verbatim>\<open>React.createElement\<close>, \<open>renderToString\<close> is
    \<^verbatim>\<open>ReactDOMServer.renderToString\<close>, which runs the component's code;
  \<^item> \<open>errorStack msg\<close> is the \<^verbatim>\<open>stack\<close> of \<^verbatim>\<open>new Error(msg)\<close> created in the handler;
  \<^item> \<open>cssPath\<close> and \<open>altCssPath\<close> are the values of
    \<^verbatim>\<open>path.join(__dirname, '../node_modules/@react-renderer/components/styles.css')\<close> and
    \<^verbatim>\<open>path.join(process.cwd(), 'dist', 'styles.css')\<close>.
\<close>

record 'h env =
  transformSync :: "string \<Rightarrow> jsval \<Rightarrow> 'h world \<Rightarrow> (exn + string option) \<times> 'h world"
  runFunction :: "string list \<Rightarrow> string \<Rightarrow> binding list \<Rightarrow> 'h world
                    \<Rightarrow> (exn + jsval) \<times> 'h world"
  createElement :: "jsval \<Rightarrow> jsval \<Rightarrow> exn + jsval"
  renderToString :: "jsval \<Rightarrow> 'h world \<Rightarrow> (exn + string) \<times> 'h world"
  errorStack :: "string \<Rightarrow> string"
  cssPath :: string
  altCssPath :: string

text \<open>\<^verbatim>\<open>new Error(msg)\<close>, for a non-empty \<open>msg\<close> as at both throw sites of the handler.\<close>

definition new_Error :: "'h env \<Rightarrow> string \<Rightarrow> exn" where
  "new_Error env msg =
     \<lparr>exn_printable = True, exn_message = JStr msg, exn_stack = JStr (errorStack env msg),
      exn_string = Some (''Error: '' @ msg)\<rparr>"

text \<open>\<^verbatim>\<open>res.status(st).json(obj)\<close>: throws when serialisation does, else writes the
  response.\<close>

definition res_json :: "nat \<Rightarrow> (string \<times> jsval) list \<Rightarrow> exn + response" where
  "res_json st obj =
     (if \<exists>(k, v) \<in> set obj. json_throws v
      then Inl \<lparr>exn_printable = True,
                exn_message = JStr ''Do not know how to serialize a BigInt'',
                exn_stack = JUndefined,
                exn_string = Some ''TypeError: Do not know how to serialize a BigInt''\<rparr>
      else Inr \<lparr>status = st, payload = filter (\<lambda>(k, v). \<not> json_omitted v) obj\<rparr>)"

section \<open>The handler of POST /render\<close>

text \<open>
  The handler is one function in the source. It is cut here at its own comments into the
  stages it runs in sequence; each stage ends by calling the next, so the definitions come
  last stage first: assembly, rendering, evaluation, transformation, and the request
  boundary with its \<^verbatim>\<open>try\<close> and \<^verbatim>\<open>catch\<close>. A run of a stage yields the response written
  or the exception thrown, the world it leaves, and the calls it made. Console output
  leaves no event. The console calls of the \<^verbatim>\<open>try\<close> block print strings and errors of
  \<^verbatim>\<open>fs\<close>; the one console call that is handed a value the handler did not make,
  \<^verbatim>\<open>console.error\<close> in the \<^verbatim>\<open>catch\<close> block, is modelled for what it can do there: throw
  while it inspects that value.
\<close>

type_synonym 'h run = "(exn + response) \<times> 'h world \<times> event list"

text \<open>Records a call in front of the trace of what follows it.\<close>

fun after :: "event \<Rightarrow> 'h run \<Rightarrow> 'h run" where
  "after e (r, w, tr) = (r, w, e # tr)"

subsection \<open>Document assembly\<close>

text \<open>
  \<^verbatim>\<open>
  let cssContent = '';
  try { cssContent = fs.readFileSync(cssPath, 'utf8'); }
  catch (err) {
    const altCssPath = path.join(process.cwd(), 'dist', 'styles.css');
    try { cssContent = fs.readFileSync(altCssPath, 'utf8'); } catch (altErr) { }
  }
  \<close>
\<close>

definition load_css :: "'h env \<Rightarrow> 'h world \<Rightarrow> string \<times> event list" where
  "load_css env w =
     (case files w (cssPath env) of
        Some css \<Rightarrow> (css, [ReadFile (cssPath env)])
      | None \<Rightarrow>
          (case files w (altCssPath env) of
             Some css \<Rightarrow> (css, [ReadFile (cssPath env), ReadFile (altCssPath env)])
           | None \<Rightarrow> ([], [ReadFile (cssPath env), ReadFile (altCssPath env)])))"

text \<open>The template literal \<^verbatim>\<open>completeHTML\<close>, character for character.\<close>

definition completeHTML :: "string \<Rightarrow> string \<Rightarrow> string" where
  \<open>completeHTML cssContent html =
     ''<!DOCTYPE html>\<newline><html lang="en">\<newline><head>\<newline>''
     @ ''    <meta charset="UTF-8">\<newline>''
     @ ''    <meta name="viewport" content="width=device-width, initial-scale=1.0">\<newline>''
     @ ''    <title>React Component</title>\<newline>''
     @ ''    <style>\<newline>''
     @ ''        '' @ cssContent @ ''\<newline>''
     @ ''    </style>\<newline></head>\<newline><body>\<newline>''
     @ ''    <div id="app">\<newline>''
     @ ''        '' @ html @ ''\<newline>''
     @ ''    </div>\<newline>    \<newline></body>\<newline></html>''\<close>

text \<open>
  \<^verbatim>\<open>
  res.json({ success: true, html: completeHTML,
             message: 'Complete HTML document generated successfully' });
  \<close>
\<close>

definition success_fields :: "string \<Rightarrow> (string \<times> jsval) list" where
  "success_fields document =
     [(''success'', JBool True),
      (''html'', JStr document),
      (''message'', JStr ''Complete HTML document generated successfully'')]"

definition assemble :: "'h env \<Rightarrow> string \<Rightarrow> 'h world \<Rightarrow> 'h run" where
  "assemble env html w =
     (let (cssContent, reads) = load_css env w
      in (res_json 200 (success_fields (completeHTML cssContent html)), w, reads))"

subsection \<open>Rendering\<close>

text \<open>
  \<^verbatim>\<open>
  const element = React.createElement(ComponentFactory, props);
  const html = ReactDOMServer.renderToString(element);
  \<close>
\<close>

definition render_element :: "'h env \<Rightarrow> jsval \<Rightarrow> jsval \<Rightarrow> 'h world \<Rightarrow> 'h run" where
  "render_element env ComponentFactory props w =
     after (CreateElement ComponentFactory props)
       (case createElement env ComponentFactory props of
          Inl e \<Rightarrow> (Inl e, w, [])
        | Inr element \<Rightarrow>
            after (RenderToString element)
              (case renderToString env element w of
                 (Inl e, w') \<Rightarrow> (Inl e, w', [])
               | (Inr html, w') \<Rightarrow> assemble env html w'))"

subsection \<open>Evaluation and validation of the export slot\<close>

text \<open>
  \<^verbatim>\<open>
  const context = { React, props, console, require: (moduleName) => ... };
  const contextKeys = Object.keys(context);
  const contextValues = Object.values(context);
  const execFn = new Function('module', ...contextKeys, transformed.code);
  const moduleObj = { exports: {} };
  execFn(moduleObj, ...contextValues);
  const ComponentFactory = moduleObj.exports;
  if (!ComponentFactory ||
      (typeof ComponentFactory !== 'function' && typeof ComponentFactory !== 'object')) {
    throw new Error('No valid component factory returned from user code');
  }
  \<close>
\<close>

definition contextKeys :: "string list" where
  "contextKeys = [''React'', ''props'', ''console'', ''require'']"

definition contextValues :: "jsval \<Rightarrow> binding list" where
  "contextValues props = [React, Props props, Console, Resolver]"

definition no_component_message :: string where
  "no_component_message = ''No valid component factory returned from user code''"

definition evaluate :: "'h env \<Rightarrow> string \<Rightarrow> jsval \<Rightarrow> 'h world \<Rightarrow> 'h run" where
  "evaluate env code props w =
     (let params = ''module'' # contextKeys;
          args = ModuleRecord (JObj [(''exports'', JObj [])]) # contextValues props
      in after (Evaluate params code args)
           (case runFunction env params code args w of
              (Inl e, w') \<Rightarrow> (Inl e, w', [])
            | (Inr moduleObj, w') \<Rightarrow>
                (let ComponentFactory = get_prop moduleObj ''exports''
                 in if \<not> truthy ComponentFactory \<or>
                       (typeof ComponentFactory \<noteq> ''function'' \<and>
                        typeof ComponentFactory \<noteq> ''object'')
                    then (Inl (new_Error env no_component_message), w', [])
                    else render_element env ComponentFactory props w')))"

subsection \<open>Transformation\<close>

text \<open>
  \<^verbatim>\<open>
  const userSource = `${code}\nmodule.exports = MyComponent;`;
  const transformed = Babel.transformSync(userSource, {
    filename: 'user-code.jsx',
    presets: [['@babel/preset-react', { runtime: 'automatic' }],
              ['@babel/preset-env', { targets: { node: '18' } }]],
    babelrc: false, configFile: false });
  if (!transformed?.code) throw new Error('Babel transform failed');
  \<close>
\<close>

definition trailer :: string where
  "trailer = ''\<newline>module.exports = MyComponent;''"

definition babel_options :: jsval where
  "babel_options =
     JObj [(''filename'', JStr ''user-code.jsx''),
           (''presets'',
              JArr [JArr [JStr ''@babel/preset-react'',
                          JObj [(''runtime'', JStr ''automatic'')]],
                    JArr [JStr ''@babel/preset-env'',
                          JObj [(''targets'', JObj [(''node'', JStr ''18'')])]]]),
           (''babelrc'', JBool False),
           (''configFile'', JBool False)]"

definition transform :: "'h env \<Rightarrow> jsval \<Rightarrow> jsval \<Rightarrow> 'h world \<Rightarrow> 'h run" where
  "transform env code props w =
     (let userSource = str_of code @ trailer
      in after (Transform userSource babel_options)
           (case transformSync env userSource babel_options w of
              (Inl e, w') \<Rightarrow> (Inl e, w', [])
            | (Inr transformed, w') \<Rightarrow>
                (case transformed of
                   None \<Rightarrow> (Inl (new_Error env ''Babel transform failed''), w', [])
                 | Some js \<Rightarrow>
                     if js = [] then (Inl (new_Error env ''Babel transform failed''), w', [])
                     else evaluate env js props w')))"

subsection \<open>The request boundary\<close>

text \<open>
  \<^verbatim>\<open>
  const { code, props = {} } = req.body ?? {};
  if (!code || typeof code !== 'string') {
    return res.status(400).json({ success: false, error: 'No code provided' });
  }
  \<close>
  The default \<^verbatim>\<open>{}\<close> of \<^verbatim>\<open>props\<close> applies to \<^verbatim>\<open>undefined\<close> only, and \<^verbatim>\<open>??\<close> replaces
  \<^verbatim>\<open>null\<close> and \<^verbatim>\<open>undefined\<close> only.
\<close>

definition request_code :: "jsval \<Rightarrow> jsval" where
  "request_code body =
     get_prop (if body = JUndefined \<or> body = JNull then JObj [] else body) ''code''"

definition request_props :: "jsval \<Rightarrow> jsval" where
  "request_props body =
     (let p = get_prop (if body = JUndefined \<or> body = JNull then JObj [] else body) ''props''
      in if p = JUndefined then JObj [] else p)"

definition no_code_fields :: "(string \<times> jsval) list" where
  "no_code_fields = [(''success'', JBool False), (''error'', JStr ''No code provided'')]"

text \<open>The body of the \<^verbatim>\<open>try\<close> block.\<close>

definition render_try :: "'h env \<Rightarrow> jsval \<Rightarrow> 'h world \<Rightarrow> 'h run" where
  "render_try env body w =
     (let code = request_code body;
          props = request_props body
      in if \<not> truthy code \<or> typeof code \<noteq> ''string''
         then (res_json 400 no_code_fields, w, [])
         else transform env code props w)"

text \<open>
  The \<^verbatim>\<open>catch\<close> block:
  \<^verbatim>\<open>
  console.error('Rendering error:', error);
  res.status(400).json({
    success: false,
    error: error?.message || String(error),
    stack: process.env.NODE_ENV === 'development' ? error?.stack : undefined,
  });
  \<close>
  An exception thrown here (by the inspection of the value in \<^verbatim>\<open>console.error\<close>, by
  \<^verbatim>\<open>String(error)\<close> or by the serialisation) is thrown outside any \<^verbatim>\<open>try\<close> and leaves the
  handler.
\<close>

definition render_catch :: "'h world \<Rightarrow> exn \<Rightarrow> outcome" where
  "render_catch w error =
     (if \<not> exn_printable error then Escaped
      else
        (case (if truthy (exn_message error) then Some (exn_message error)
               else map_option JStr (exn_string error)) of
           None \<Rightarrow> Escaped
         | Some err \<Rightarrow>
             (case res_json 400
                     [(''success'', JBool False),
                      (''error'', err),
                      (''stack'', if node_env w = Some ''development''
                                  then exn_stack error else JUndefined)] of
                Inl e \<Rightarrow> Escaped
              | Inr r \<Rightarrow> Responded r)))"

definition render_handler :: "'h env \<Rightarrow> jsval \<Rightarrow> 'h world \<Rightarrow> outcome \<times> 'h world \<times> event list" where
  "render_handler env body w =
     (case render_try env body w of
        (Inr r, w', tr) \<Rightarrow> (Responded r, w', tr)
      | (Inl error, w', tr) \<Rightarrow> (render_catch w' error, w', tr))"

subsection \<open>What the calls of a request may leave behind\<close>




section \<open>A demonstration host\<close>

text \<open>
  To run the handler on concrete requests, the libraries are instantiated by a small host
  that knows a handful of submissions. The submissions contain no markup and nothing that
  Node 18 lacks, so the compiler of this host returns the text it was given behind the
  strict-mode directive. Its evaluator gives each of the submissions the result that
  running it has; every other text is treated as one that never declares
  \<^verbatim>\<open>MyComponent\<close>, so that the trailer's read of it throws a ReferenceError.
\<close>

definition title_source :: string where
  \<open>title_source =
     ''function MyComponent(props) { return React.createElement("h1", null, props.title); }''\<close>

definition memo_source :: string where
  \<open>memo_source =
     ''const MyComponent = React.memo(function Inner() { return React.createElement("div", null, "hi"); });''\<close>

text \<open>The object \<^verbatim>\<open>React.memo(Inner)\<close> returns: not a function, yet a component type that
  React renders.\<close>

definition memo_value :: jsval where
  \<open>memo_value =
     JObj [(''$$typeof'', JSymbol ''react.memo''),
           (''type'', JFun ''function Inner() { return React.createElement("div", null, "hi"); }''),
           (''compare'', JNull)]\<close>

definition number_source :: string where
  "number_source = ''const MyComponent = 42;''"

definition throw_source :: string where
  "throw_source = ''throw Object.create(null);''"

definition empty_error_source :: string where
  \<open>empty_error_source = ''throw new Error("");''\<close>

definition blank_source :: string where
  "blank_source = ''   ''"

definition registry_source :: string where
  \<open>registry_source =
     ''require("@react-renderer/components").Button = null; function MyComponent() { return null; }''\<close>

definition seen_source :: string where
  \<open>seen_source =
     ''function MyComponent() { const seen = globalThis.seen; globalThis.seen = true; return React.createElement("p", null, seen ? "again" : "first"); }''\<close>

definition compiled :: "string \<Rightarrow> string" where
  \<open>compiled src = ''"use strict";\<newline>\<newline>'' @ src @ trailer\<close>

definition reference_error :: exn where
  "reference_error =
     \<lparr>exn_printable = True,
      exn_message = JStr ''MyComponent is not defined'',
      exn_stack = JStr ''ReferenceError: MyComponent is not defined\<newline>    at eval (eval at <anonymous>)'',
      exn_string = Some ''ReferenceError: MyComponent is not defined''\<rparr>"

text \<open>The value thrown by \<^verbatim>\<open>throw Object.create(null)\<close>: an object with no prototype, hence
  no \<^verbatim>\<open>message\<close>, no \<^verbatim>\<open>stack\<close> and no \<^verbatim>\<open>toString\<close>; the console prints it as
  \<^verbatim>\<open>[Object: null prototype] {}\<close>.\<close>

definition bare_object :: exn where
  "bare_object =
     \<lparr>exn_printable = True, exn_message = JUndefined, exn_stack = JUndefined,
      exn_string = None\<rparr>"

text \<open>The value thrown by \<^verbatim>\<open>throw new Error("")\<close>: its message is the empty string and its
  string form is the name of the error.\<close>

definition empty_error :: exn where
  "empty_error =
     \<lparr>exn_printable = True,
      exn_message = JStr [],
      exn_stack = JStr ''Error\<newline>    at eval (eval at <anonymous>)'',
      exn_string = Some ''Error''\<rparr>"

definition invalid_element :: exn where
  "invalid_element =
     \<lparr>exn_printable = True,
      exn_message = JStr ''Element type is invalid'',
      exn_stack = JStr ''Error: Element type is invalid\<newline>    at renderToString'',
      exn_string = Some ''Error: Element type is invalid''\<rparr>"

definition demo_runFunction ::
  "string list \<Rightarrow> string \<Rightarrow> binding list \<Rightarrow> bool world \<Rightarrow> (exn + jsval) \<times> bool world" where
  "demo_runFunction params text args w =
     (if text = compiled title_source
      then (Inr (JObj [(''exports'', JFun title_source)]), w)
      else if text = compiled memo_source
      then (Inr (JObj [(''exports'', memo_value)]), w)
      else if text = compiled number_source
      then (Inr (JObj [(''exports'', JNum (Finite 42))]), w)
      else if text = compiled throw_source
      then (Inl bare_object, w)
      else if text = compiled empty_error_source
      then (Inl empty_error, w)
      else (Inl reference_error, w))"

text \<open>\<^verbatim>\<open>React.createElement(type, config)\<close> for a \<open>config\<close> that is an object, \<^verbatim>\<open>null\<close> or a
  number: the element's props are the own properties of \<open>config\<close> but \<^verbatim>\<open>key\<close> and
  \<^verbatim>\<open>ref\<close>.\<close>

definition demo_createElement :: "jsval \<Rightarrow> jsval \<Rightarrow> exn + jsval" where
  "demo_createElement type config =
     Inr (JObj [(''$$typeof'', JSymbol ''react.element''),
                (''type'', type), (''key'', JNull), (''ref'', JNull),
                (''props'', (case config of
                               JObj kvs \<Rightarrow> JObj (filter (\<lambda>(k, v). k \<noteq> ''key'' \<and> k \<noteq> ''ref'') kvs)
                             | _ \<Rightarrow> JObj []))])"

definition demo_renderToString :: "jsval \<Rightarrow> bool world \<Rightarrow> (exn + string) \<times> bool world" where
  "demo_renderToString element w =
     (if get_prop element ''type'' = JFun title_source
      then (Inr (''<h1>'' @ str_of (get_prop (get_prop element ''props'') ''title'') @ ''</h1>''), w)
      else if get_prop element ''type'' = memo_value
      then (Inr ''<div>hi</div>'', w)
      else (Inl invalid_element, w))"

definition demo_env :: "bool env" where
  \<open>demo_env =
     \<lparr>transformSync = (\<lambda>src opts w. (Inr (Some (''"use strict";\<newline>\<newline>'' @ src)), w)),
      runFunction = demo_runFunction,
      createElement = demo_createElement,
      renderToString = demo_renderToString,
      errorStack = (\<lambda>msg. ''Error: '' @ msg @ ''\<newline>    at /app/dist/server.js''),
      cssPath = ''/app/node_modules/@react-renderer/components/styles.css'',
      altCssPath = ''/app/dist/styles.css''\<rparr>\<close>

text \<open>The host component of the world records whether \<^verbatim>\<open>globalThis.seen\<close> has been set.\<close>

definition demo_world :: "bool world" where
  "demo_world =
     \<lparr>predefinedComponents = [(''Button'', JFun ''function Button(props) { ... }'')],
      files = (\<lambda>p. if p = ''/app/node_modules/@react-renderer/components/styles.css''
                    then Some ''body { margin: 0; }'' else None),
      node_env = None,
      host = False\<rparr>"

text \<open>The same host, also knowing two submissions that write to shared state: one assigns
  to a property of the registry object it obtained from the resolver, the other keeps a
  flag on the global object and renders differently once the flag is set.\<close>

definition leaky_runFunction ::
  "string list \<Rightarrow> string \<Rightarrow> binding list \<Rightarrow> bool world \<Rightarrow> (exn + jsval) \<times> bool world" where
  "leaky_runFunction params text args w =
     (if text = compiled registry_source
      then (Inr (JObj [(''exports'', JFun ''function MyComponent() { return null; }'')]),
            w\<lparr>predefinedComponents := AList.update ''Button'' JNull (predefinedComponents w)\<rparr>)
      else if text = compiled seen_source
      then (Inr (JObj [(''exports'', JFun seen_source)]), w)
      else demo_runFunction params text args w)"

definition leaky_renderToString :: "jsval \<Rightarrow> bool world \<Rightarrow> (exn + string) \<times> bool world" where
  "leaky_renderToString element w =
     (if get_prop element ''type'' = JFun ''function MyComponent() { return null; }''
      then (Inr [], w)
      else if get_prop element ''type'' = JFun seen_source
      then (Inr (if host w then ''<p>again</p>'' else ''<p>first</p>''), w\<lparr>host := True\<rparr>)
      else demo_renderToString element w)"

definition leaky_env :: "bool env" where
  "leaky_env =
     demo_env\<lparr>runFunction := leaky_runFunction, renderToString := leaky_renderToString\<rparr>"

section \<open>Properties of the handler\<close>

lemmas demo_defs = demo_env_def demo_world_def demo_runFunction_def demo_createElement_def
  demo_renderToString_def compiled_def title_source_def memo_source_def memo_value_def
  throw_source_def blank_source_def reference_error_def bare_object_def invalid_element_def
  trailer_def leaky_env_def leaky_runFunction_def leaky_renderToString_def registry_source_def seen_source_def
  number_source_def empty_error_source_def empty_error_def
lemmas handler_defs = render_handler_def render_try_def render_catch_def transform_def
  evaluate_def render_element_def assemble_def load_css_def res_json_def new_Error_def
  request_code_def request_props_def no_code_fields_def contextKeys_def contextValues_def
  no_component_message_def success_fields_def Let_def

subsection \<open>The paths of a run\<close>

lemma valid_code_iff:
  "(truthy c \<and> typeof c = ''string'') = (\<exists>s. c = JStr s \<and> s \<noteq> [])"
  by (cases c) auto

lemma valid_factory_iff:
  "(\<not> truthy v \<or> (typeof v \<noteq> ''function'' \<and> typeof v \<noteq> ''object'')) =
   (typeof v \<noteq> ''function'' \<and> (typeof v \<noteq> ''object'' \<or> v = JNull))"
  by (cases v) auto

lemma res_json_no_code:
  "res_json 400 no_code_fields = Inr \<lparr>status = 400, payload = no_code_fields\<rparr>"
  by (simp add: res_json_def no_code_fields_def)

lemma assemble_eq:
  "assemble env html w =
     (Inr \<lparr>status = 200,
           payload = success_fields (completeHTML (fst (load_css env w)) html)\<rparr>,
      w, snd (load_css env w))"
  by (simp add: assemble_def res_json_def success_fields_def split: prod.splits)

lemma load_css_first_read:
  "ReadFile (cssPath env) \<in> set (snd (load_css env w))"
  by (simp add: load_css_def split: option.splits)

lemma load_css_only_reads:
  "e \<in> set (snd (load_css env w)) \<Longrightarrow> \<exists>q. e = ReadFile q"
  by (auto simp: load_css_def split: option.splits)

lemma load_css_text:
  "fst (load_css env w) =
     (case files w (cssPath env) of
        Some css \<Rightarrow> css
      | None \<Rightarrow> (case files w (altCssPath env) of Some css \<Rightarrow> css | None \<Rightarrow> []))"
  by (simp add: load_css_def split: option.splits)

text \<open>Each stage, by the results of the calls it makes.\<close>

lemma render_try_rejects:
  assumes "\<not> (\<exists>s. request_code body = JStr s \<and> s \<noteq> [])"
  shows "render_try env body w = (Inr \<lparr>status = 400, payload = no_code_fields\<rparr>, w, [])"
proof -
  have "\<not> truthy (request_code body) \<or> typeof (request_code body) \<noteq> ''string''"
    using assms valid_code_iff [of "request_code body"] by blast
  then show ?thesis
    by (simp add: render_try_def Let_def res_json_no_code)
qed

lemma render_try_transforms:
  assumes "request_code body = JStr s" and "s \<noteq> []"
  shows "render_try env body w = transform env (JStr s) (request_props body) w"
  using assms by (simp add: render_try_def Let_def)

lemma transform_thrown:
  assumes "transformSync env (s @ trailer) babel_options w = (Inl e, wc)"
  shows "transform env (JStr s) props w = (Inl e, wc, [Transform (s @ trailer) babel_options])"
  using assms by (simp add: transform_def Let_def)

lemma transform_no_code:
  assumes "transformSync env (s @ trailer) babel_options w = (Inr c, wc)"
    and "c = None \<or> c = Some []"
  shows "transform env (JStr s) props w =
           (Inl (new_Error env ''Babel transform failed''), wc,
            [Transform (s @ trailer) babel_options])"
  using assms by (auto simp: transform_def Let_def)

lemma transform_compiled:
  assumes "transformSync env (s @ trailer) babel_options w = (Inr (Some js), wc)" and "js \<noteq> []"
  shows "transform env (JStr s) props w =
           after (Transform (s @ trailer) babel_options) (evaluate env js props wc)"
  using assms by (simp add: transform_def Let_def)

lemma evaluate_thrown:
  assumes "runFunction env (''module'' # contextKeys) js
             (ModuleRecord (JObj [(''exports'', JObj [])]) # contextValues props) w = (Inl e, we)"
  shows "evaluate env js props w =
           (Inl e, we,
            [Evaluate (''module'' # contextKeys) js
               (ModuleRecord (JObj [(''exports'', JObj [])]) # contextValues props)])"
  using assms by (simp add: evaluate_def Let_def)

lemma evaluate_invalid:
  assumes "runFunction env (''module'' # contextKeys) js
             (ModuleRecord (JObj [(''exports'', JObj [])]) # contextValues props) w =
           (Inr moduleObj, we)"
    and "\<not> (typeof (get_prop moduleObj ''exports'') = ''function'' \<or>
            (typeof (get_prop moduleObj ''exports'') = ''object'' \<and>
             get_prop moduleObj ''exports'' \<noteq> JNull))"
  shows "evaluate env js props w =
           (Inl (new_Error env no_component_message), we,
            [Evaluate (''module'' # contextKeys) js
               (ModuleRecord (JObj [(''exports'', JObj [])]) # contextValues props)])"
proof -
  have "\<not> truthy (get_prop moduleObj ''exports'') \<or>
        (typeof (get_prop moduleObj ''exports'') \<noteq> ''function'' \<and>
         typeof (get_prop moduleObj ''exports'') \<noteq> ''object'')"
    using assms(2) valid_factory_iff [of "get_prop moduleObj ''exports''"] by blast
  then show ?thesis
    using assms(1) by (simp add: evaluate_def Let_def)
qed

lemma evaluate_valid:
  assumes "runFunction env (''module'' # contextKeys) js
             (ModuleRecord (JObj [(''exports'', JObj [])]) # contextValues props) w =
           (Inr moduleObj, we)"
    and "typeof (get_prop moduleObj ''exports'') = ''function'' \<or>
         (typeof (get_prop moduleObj ''exports'') = ''object'' \<and>
          get_prop moduleObj ''exports'' \<noteq> JNull)"
  shows "evaluate env js props w =
           after (Evaluate (''module'' # contextKeys) js
                    (ModuleRecord (JObj [(''exports'', JObj [])]) # contextValues props))
             (render_element env (get_prop moduleObj ''exports'') props we)"
proof -
  have "\<not> (\<not> truthy (get_prop moduleObj ''exports'') \<or>
        (typeof (get_prop moduleObj ''exports'') \<noteq> ''function'' \<and>
         typeof (get_prop moduleObj ''exports'') \<noteq> ''object''))"
    using assms(2) valid_factory_iff [of "get_prop moduleObj ''exports''"] by blast
  then show ?thesis
    using assms(1) by (auto simp: evaluate_def Let_def)
qed

lemma render_element_refused:
  assumes "createElement env f p = Inl e"
  shows "render_element env f p w = (Inl e, w, [CreateElement f p])"
  using assms by (simp add: render_element_def)

lemma render_element_thrown:
  assumes "createElement env f p = Inr el" and "renderToString env el w = (Inl e, wr)"
  shows "render_element env f p w = (Inl e, wr, [CreateElement f p, RenderToString el])"
  using assms by (simp add: render_element_def)

lemma render_element_rendered:
  assumes "createElement env f p = Inr el" and "renderToString env el w = (Inr frag, wr)"
  shows "render_element env f p w =
           (Inr \<lparr>status = 200,
                 payload = success_fields (completeHTML (fst (load_css env wr)) frag)\<rparr>,
            wr,
            CreateElement f p # RenderToString el # snd (load_css env wr))"
  using assms by (simp add: render_element_def assemble_eq)

text \<open>
  Every run of the \<^verbatim>\<open>try\<close> block is one of six: rejected at validation; stopped at the
  compiler; stopped at the evaluation or at the validation of the export slot; stopped at
  the construction of the element; stopped at rendering; or completed with a document.
\<close>

lemma run_cases [consumes 1, case_names rejected compiler evaluation element rendering document]:
  assumes run: "render_try env body w = (x, w', tr)"
    and rejected:
      "\<lbrakk>\<not> (\<exists>s. request_code body = JStr s \<and> s \<noteq> []);
        x = Inr \<lparr>status = 400, payload = no_code_fields\<rparr>; w' = w; tr = []\<rbrakk> \<Longrightarrow> P"
    and compiler:
      "\<And>s c. \<lbrakk>request_code body = JStr s; s \<noteq> [];
        transformSync env (s @ trailer) babel_options w = (c, w');
        tr = [Transform (s @ trailer) babel_options];
        (\<exists>e. c = Inl e \<and> x = Inl e) \<or>
        ((c = Inr None \<or> c = Inr (Some [])) \<and> x = Inl (new_Error env ''Babel transform failed''))\<rbrakk>
       \<Longrightarrow> P"
    and evaluation:
      "\<And>s js wc r. \<lbrakk>request_code body = JStr s; s \<noteq> [];
        transformSync env (s @ trailer) babel_options w = (Inr (Some js), wc); js \<noteq> [];
        runFunction env (''module'' # contextKeys) js
          (ModuleRecord (JObj [(''exports'', JObj [])]) # contextValues (request_props body)) wc =
          (r, w');
        tr = [Transform (s @ trailer) babel_options,
              Evaluate (''module'' # contextKeys) js
                (ModuleRecord (JObj [(''exports'', JObj [])]) # contextValues (request_props body))];
        (\<exists>e. r = Inl e \<and> x = Inl e) \<or>
        (\<exists>m. r = Inr m \<and>
           \<not> (typeof (get_prop m ''exports'') = ''function'' \<or>
              (typeof (get_prop m ''exports'') = ''object'' \<and> get_prop m ''exports'' \<noteq> JNull)) \<and>
           x = Inl (new_Error env no_component_message))\<rbrakk>
       \<Longrightarrow> P"
    and element:
      "\<And>s js wc m e. \<lbrakk>request_code body = JStr s; s \<noteq> [];
        transformSync env (s @ trailer) babel_options w = (Inr (Some js), wc); js \<noteq> [];
        runFunction env (''module'' # contextKeys) js
          (ModuleRecord (JObj [(''exports'', JObj [])]) # contextValues (request_props body)) wc =
          (Inr m, w');
        typeof (get_prop m ''exports'') = ''function'' \<or>
          (typeof (get_prop m ''exports'') = ''object'' \<and> get_prop m ''exports'' \<noteq> JNull);
        createElement env (get_prop m ''exports'') (request_props body) = Inl e;
        x = Inl e;
        tr = [Transform (s @ trailer) babel_options,
              Evaluate (''module'' # contextKeys) js
                (ModuleRecord (JObj [(''exports'', JObj [])]) # contextValues (request_props body)),
              CreateElement (get_prop m ''exports'') (request_props body)]\<rbrakk>
       \<Longrightarrow> P"
    and rendering:
      "\<And>s js wc m we el e. \<lbrakk>request_code body = JStr s; s \<noteq> [];
        transformSync env (s @ trailer) babel_options w = (Inr (Some js), wc); js \<noteq> [];
        runFunction env (''module'' # contextKeys) js
          (ModuleRecord (JObj [(''exports'', JObj [])]) # contextValues (request_props body)) wc =
          (Inr m, we);
        typeof (get_prop m ''exports'') = ''function'' \<or>
          (typeof (get_prop m ''exports'') = ''object'' \<and> get_prop m ''exports'' \<noteq> JNull);
        createElement env (get_prop m ''exports'') (request_props body) = Inr el;
        renderToString env el we = (Inl e, w');
        x = Inl e;
        tr = [Transform (s @ trailer) babel_options,
              Evaluate (''module'' # contextKeys) js
                (ModuleRecord (JObj [(''exports'', JObj [])]) # contextValues (request_props body)),
              CreateElement (get_prop m ''exports'') (request_props body),
              RenderToString el]\<rbrakk>
       \<Longrightarrow> P"
    and document:
      "\<And>s js wc m we el frag. \<lbrakk>request_code body = JStr s; s \<noteq> [];
        transformSync env (s @ trailer) babel_options w = (Inr (Some js), wc); js \<noteq> [];
        runFunction env (''module'' # contextKeys) js
          (ModuleRecord (JObj [(''exports'', JObj [])]) # contextValues (request_props body)) wc =
          (Inr m, we);
        typeof (get_prop m ''exports'') = ''function'' \<or>
          (typeof (get_prop m ''exports'') = ''object'' \<and> get_prop m ''exports'' \<noteq> JNull);
        createElement env (get_prop m ''exports'') (request_props body) = Inr el;
        renderToString env el we = (Inr frag, w');
        x = Inr \<lparr>status = 200,
                  payload = success_fields (completeHTML (fst (load_css env w')) frag)\<rparr>;
        tr = Transform (s @ trailer) babel_options #
             Evaluate (''module'' # contextKeys) js
               (ModuleRecord (JObj [(''exports'', JObj [])]) # contextValues (request_props body)) #
             CreateElement (get_prop m ''exports'') (request_props body) #
             RenderToString el # snd (load_css env w')\<rbrakk>
       \<Longrightarrow> P"
  shows P
proof (cases "\<exists>s. request_code body = JStr s \<and> s \<noteq> []")
  case False
  then show P using run render_try_rejects [OF False, of env w] rejected by simp
next
  case True
  then obtain s where s: "request_code body = JStr s" "s \<noteq> []" by blast
  let ?p = "request_props body"
  let ?ps = "''module'' # contextKeys"
  let ?args = "ModuleRecord (JObj [(''exports'', JObj [])]) # contextValues ?p"
  have t: "transform env (JStr s) ?p w = (x, w', tr)"
    using run render_try_transforms [OF s, of env w] by simp
  obtain c wc where c: "transformSync env (s @ trailer) babel_options w = (c, wc)"
    by (cases "transformSync env (s @ trailer) babel_options w")
  show P
  proof (cases "\<exists>js. c = Inr (Some js) \<and> js \<noteq> []")
    case False
    show P
    proof (cases c)
      case (Inl e)
      then show P using t c transform_thrown [of env s w e wc ?p] compiler [OF s, of c] by simp
    next
      case (Inr code)
      then have "code = None \<or> code = Some []" using False by (cases code) auto
      then show P
        using t c Inr transform_no_code [of env s w code wc ?p] compiler [OF s, of c] by auto
    qed
  next
    case True
    then obtain js where js: "c = Inr (Some js)" "js \<noteq> []" by blast
    have c': "transformSync env (s @ trailer) babel_options w = (Inr (Some js), wc)"
      using c js by simp
    have t': "after (Transform (s @ trailer) babel_options) (evaluate env js ?p wc) = (x, w', tr)"
      using t transform_compiled [OF c' js(2), of ?p] by simp
    obtain r we where r: "runFunction env ?ps js ?args wc = (r, we)"
      by (cases "runFunction env ?ps js ?args wc")
    show P
    proof (cases "\<exists>m. r = Inr m \<and>
        (typeof (get_prop m ''exports'') = ''function'' \<or>
         (typeof (get_prop m ''exports'') = ''object'' \<and> get_prop m ''exports'' \<noteq> JNull))")
      case False
      show P
      proof (cases r)
        case (Inl e)
        then show P
          using t' r evaluate_thrown [of env js ?p wc e we] evaluation [OF s c' js(2), of r] by auto
      next
        case (Inr m)
        then have inv: "\<not> (typeof (get_prop m ''exports'') = ''function'' \<or>
            (typeof (get_prop m ''exports'') = ''object'' \<and> get_prop m ''exports'' \<noteq> JNull))"
          using False by blast
        have "evaluate env js ?p wc = (Inl (new_Error env no_component_message), we,
            [Evaluate ?ps js ?args])"
          using r Inr inv by (intro evaluate_invalid) auto
        then show P
          using t' r Inr inv evaluation [OF s c' js(2), of r] by auto
      qed
    next
      case True
      then obtain m where m: "r = Inr m"
        "typeof (get_prop m ''exports'') = ''function'' \<or>
         (typeof (get_prop m ''exports'') = ''object'' \<and> get_prop m ''exports'' \<noteq> JNull)"
        by blast
      let ?f = "get_prop m ''exports''"
      have r': "runFunction env ?ps js ?args wc = (Inr m, we)" using r m by simp
      have t'': "after (Transform (s @ trailer) babel_options)
                   (after (Evaluate ?ps js ?args) (render_element env ?f ?p we)) = (x, w', tr)"
        using t' evaluate_valid [OF r' m(2)] by simp
      show P
      proof (cases "createElement env ?f ?p")
        case (Inl e)
        then show P
          using t'' render_element_refused [OF Inl, of we] element [OF s c' js(2) _ m(2) Inl] r'
          by auto
      next
        case (Inr el)
        obtain y wr where y: "renderToString env el we = (y, wr)"
          by (cases "renderToString env el we")
        show P
        proof (cases y)
          case (Inl e)
          then show P
            using t'' y render_element_thrown [OF Inr, of we e wr]
              rendering [OF s c' js(2) r' m(2) Inr]
            by auto
        next
          case frag: (Inr frag)
          then show P
            using t'' y render_element_rendered [OF Inr, of we frag wr]
              document [OF s c' js(2) r' m(2) Inr]
            by auto
        qed
      qed
    qed
  qed
qed

lemma handler_of_try:
  "render_handler env body w = (out, w', tr) \<Longrightarrow>
   \<exists>x. render_try env body w = (x, w', tr) \<and>
       out = (case x of Inl error \<Rightarrow> render_catch w' error | Inr r \<Rightarrow> Responded r)"
  by (auto simp: render_handler_def split: prod.splits sum.splits)

lemma run_of_outcome:
  "fst (render_handler env body w) = out \<Longrightarrow>
   render_handler env body w =
     (out, fst (snd (render_handler env body w)), snd (snd (render_handler env body w)))"
  by (metis prod.collapse)

lemma catch_is_failure:
  "render_catch w e = Responded r \<Longrightarrow>
   status r = 400 \<and> map_of (payload r) ''success'' = Some (JBool False)"
  by (auto simp: render_catch_def res_json_def split: option.splits if_splits)

lemma catch_new_Error:
  "msg \<noteq> [] \<Longrightarrow>
   render_catch w (new_Error env msg) =
     Responded \<lparr>status = 400,
                payload = [(''success'', JBool False), (''error'', JStr msg)] @
                          (if node_env w = Some ''development''
                           then [(''stack'', JStr (errorStack env msg))] else [])\<rparr>"
  by (simp add: render_catch_def new_Error_def res_json_def)

subsection \<open>Validation of the request\<close>

text \<open>
  Claim C1, as the code has it. The handler answers \<^verbatim>\<open>No code provided\<close> (success false,
  status 400) without calling the transformer exactly when \<^verbatim>\<open>code\<close> is not a non-empty
  string: missing, not a string, or the empty string. Every other \<^verbatim>\<open>code\<close>, a string of
  white space included, is handed to the transformer with the trailer appended: the guard
  is \<^verbatim>\<open>!code || typeof code !== 'string'\<close> and nothing trims.
\<close>

theorem render_validation:
  "(if \<exists>s. request_code body = JStr s \<and> s \<noteq> []
    then \<exists>out w' tr. render_handler env body w =
           (out, w', Transform (str_of (request_code body) @ trailer) babel_options # tr)
    else render_handler env body w =
           (Responded \<lparr>status = 400,
                       payload = [(''success'', JBool False),
                                  (''error'', JStr ''No code provided'')]\<rparr>, w, []))"
proof (cases "\<exists>s. request_code body = JStr s \<and> s \<noteq> []")
  case True
  then obtain s where s: "request_code body = JStr s" "s \<noteq> []" by blast
  obtain x w' tr where run: "render_try env body w = (x, w', tr)"
    using prod_cases3 by blast
  from run have "\<exists>rest. tr = Transform (s @ trailer) babel_options # rest"
    by (cases rule: run_cases) (use s in auto)
  then obtain rest where "render_try env body w = (x, w', Transform (s @ trailer) babel_options # rest)"
    using run by blast
  then have "\<exists>out. render_handler env body w =
      (out, w', Transform (s @ trailer) babel_options # rest)"
    by (cases x) (simp_all add: render_handler_def)
  then show ?thesis using True s by auto
next
  case False
  then have "render_try env body w = (Inr \<lparr>status = 400, payload = no_code_fields\<rparr>, w, [])"
    by (rule render_try_rejects)
  then show ?thesis using False
    by (simp add: render_handler_def no_code_fields_def)
qed

text \<open>The two branches on the demonstration host: an empty \<^verbatim>\<open>code\<close> and the code
  \<^verbatim>\<open>x\<close>.\<close>

theorem render_validation_witness:
  "render_handler demo_env (JObj [(''code'', JStr [])]) demo_world =
     (Responded \<lparr>status = 400,
                 payload = [(''success'', JBool False), (''error'', JStr ''No code provided'')]\<rparr>,
      demo_world, [])
   \<and> (\<exists>out w' tr. render_handler demo_env (JObj [(''code'', JStr ''x'')]) demo_world =
         (out, w', Transform ''x\<newline>module.exports = MyComponent;'' babel_options # tr))"
  using render_validation [of "JObj [(''code'', JStr [])]" demo_env demo_world]
    render_validation [of "JObj [(''code'', JStr ''x'')]" demo_env demo_world]
  by (simp add: request_code_def trailer_def)

text \<open>
  Claim C1 as stated fails for a \<^verbatim>\<open>code\<close> of three spaces: it is empty after trimming, yet
  the transformer and the evaluator are both called, and the failure reported is the
  ReferenceError of the evaluated trailer.
\<close>

theorem whitespace_code_reaches_transformer:
  \<open>render_handler demo_env (JObj [(''code'', JStr ''   '')]) demo_world =
     (Responded \<lparr>status = 400,
                 payload = [(''success'', JBool False),
                            (''error'', JStr ''MyComponent is not defined'')]\<rparr>,
      demo_world,
      [Transform ''   \<newline>module.exports = MyComponent;'' babel_options,
       Evaluate [''module'', ''React'', ''props'', ''console'', ''require'']
         ''"use strict";\<newline>\<newline>   \<newline>module.exports = MyComponent;''
         [ModuleRecord (JObj [(''exports'', JObj [])]), React, Props (JObj []), Console, Resolver]])\<close>
  by (simp add: handler_defs demo_defs)

subsection \<open>Validation of the export slot\<close>

text \<open>
  Claim C2, as the code has it. When the evaluation of the transformed source completes,
  the value left in the export slot of the module record decides what follows, in both
  directions. If it is a function or a non-null object, invokable or not, the validation
  lets it through: the element constructor is called with it and with the props of the
  request, and the element it returns is handed to the renderer. If it is neither, the
  request ends with status 400, \<^verbatim>\<open>success: false\<close> and the message
  \<^verbatim>\<open>No valid component factory returned from user code\<close> (with the stack of that error
  when \<^verbatim>\<open>NODE_ENV\<close> is \<^verbatim>\<open>development\<close>), and neither the element constructor nor the
  renderer is called.
\<close>

theorem export_slot_validation:
  assumes "request_code body = JStr s" and "s \<noteq> []"
    and "transformSync env (s @ trailer) babel_options w = (Inr (Some js), wc)" and "js \<noteq> []"
    and "runFunction env (''module'' # contextKeys) js
           (ModuleRecord (JObj [(''exports'', JObj [])]) # contextValues (request_props body)) wc =
         (Inr moduleObj, we)"
  shows "if typeof (get_prop moduleObj ''exports'') = ''function'' \<or>
            (typeof (get_prop moduleObj ''exports'') = ''object'' \<and>
             get_prop moduleObj ''exports'' \<noteq> JNull)
         then
           \<exists>out w' rest.
             render_handler env body w =
               (out, w',
                Transform (s @ trailer) babel_options #
                Evaluate (''module'' # contextKeys) js
                  (ModuleRecord (JObj [(''exports'', JObj [])]) #
                   contextValues (request_props body)) #
                CreateElement (get_prop moduleObj ''exports'') (request_props body) # rest) \<and>
             (case createElement env (get_prop moduleObj ''exports'') (request_props body) of
                Inl e \<Rightarrow> rest = []
              | Inr element \<Rightarrow> \<exists>rest'. rest = RenderToString element # rest')
         else
           render_handler env body w =
             (Responded
                \<lparr>status = 400,
                 payload =
                   [(''success'', JBool False),
                    (''error'', JStr ''No valid component factory returned from user code'')] @
                   (if node_env we = Some ''development''
                    then [(''stack'',
                           JStr (errorStack env
                                   ''No valid component factory returned from user code''))]
                    else [])\<rparr>,
              we,
              [Transform (s @ trailer) babel_options,
               Evaluate (''module'' # contextKeys) js
                 (ModuleRecord (JObj [(''exports'', JObj [])]) #
                  contextValues (request_props body))])"
proof -
  let ?f = "get_prop moduleObj ''exports''"
  let ?p = "request_props body"
  let ?T = "Transform (s @ trailer) babel_options"
  let ?E = "Evaluate (''module'' # contextKeys) js
              (ModuleRecord (JObj [(''exports'', JObj [])]) # contextValues ?p)"
  have run: "render_try env body w = after ?T (evaluate env js ?p wc)"
    using render_try_transforms [OF assms(1,2), of env w] transform_compiled [OF assms(3,4), of ?p]
    by simp
  show ?thesis
  proof (cases "typeof ?f = ''function'' \<or> (typeof ?f = ''object'' \<and> ?f \<noteq> JNull)")
    case True
    have ev: "evaluate env js ?p wc = after ?E (render_element env ?f ?p we)"
      using assms(5) True by (rule evaluate_valid)
    have "\<exists>out w' rest.
        render_handler env body w = (out, w', ?T # ?E # CreateElement ?f ?p # rest) \<and>
        (case createElement env ?f ?p of
           Inl e \<Rightarrow> rest = []
         | Inr element \<Rightarrow> \<exists>rest'. rest = RenderToString element # rest')"
    proof (cases "createElement env ?f ?p")
      case (Inl e)
      have "render_try env body w = (Inl e, we, [?T, ?E, CreateElement ?f ?p])"
        using run ev render_element_refused [OF Inl, of we] by simp
      then show ?thesis using Inl by (simp add: render_handler_def)
    next
      case (Inr el)
      obtain y wr where y: "renderToString env el we = (y, wr)"
        by (cases "renderToString env el we")
      show ?thesis
      proof (cases y)
        case (Inl e)
        have "render_try env body w =
            (Inl e, wr, [?T, ?E, CreateElement ?f ?p, RenderToString el])"
          using run ev y Inl render_element_thrown [OF Inr, of we e wr] by simp
        then show ?thesis using Inr by (simp add: render_handler_def)
      next
        case frag: (Inr frag)
        have "render_try env body w =
            (Inr \<lparr>status = 200,
                  payload = success_fields (completeHTML (fst (load_css env wr)) frag)\<rparr>,
             wr, ?T # ?E # CreateElement ?f ?p # RenderToString el # snd (load_css env wr))"
          using run ev y frag render_element_rendered [OF Inr, of we frag wr] by simp
        then show ?thesis using Inr by (simp add: render_handler_def)
      qed
    qed
    then show ?thesis using True by simp
  next
    case False
    have "evaluate env js ?p wc = (Inl (new_Error env no_component_message), we, [?E])"
      using assms(5) False by (rule evaluate_invalid)
    then have "render_handler env body w =
        (render_catch we (new_Error env no_component_message), we, [?T, ?E])"
      using run by (simp add: render_handler_def)
    moreover have "no_component_message \<noteq> []"
      by (simp add: no_component_message_def)
    ultimately show ?thesis
      using False by (simp add: catch_new_Error) (simp add: no_component_message_def)
  qed
qed

text \<open>Both branches on the demonstration host: \<^verbatim>\<open>const MyComponent = 42;\<close> leaves a number
  in the export slot and is refused; the memo object, which is not invokable, is handed to
  the element constructor and its element to the renderer.\<close>

theorem export_slot_validation_witness:
  \<open>render_handler demo_env (JObj [(''code'', JStr ''const MyComponent = 42;'')]) demo_world =
     (Responded
        \<lparr>status = 400,
         payload = [(''success'', JBool False),
                    (''error'', JStr ''No valid component factory returned from user code'')]\<rparr>,
      demo_world,
      [Transform ''const MyComponent = 42;\<newline>module.exports = MyComponent;'' babel_options,
       Evaluate [''module'', ''React'', ''props'', ''console'', ''require'']
         ''"use strict";\<newline>\<newline>const MyComponent = 42;\<newline>module.exports = MyComponent;''
         [ModuleRecord (JObj [(''exports'', JObj [])]), React, Props (JObj []), Console, Resolver]])
   \<and> (\<exists>out w' rest'.
         render_handler demo_env (JObj [(''code'', JStr memo_source)]) demo_world =
           (out, w',
            Transform (memo_source @ trailer) babel_options #
            Evaluate [''module'', ''React'', ''props'', ''console'', ''require'']
              (compiled memo_source)
              [ModuleRecord (JObj [(''exports'', JObj [])]), React, Props (JObj []), Console,
               Resolver] #
            CreateElement memo_value (JObj []) #
            RenderToString
              (JObj [(''$$typeof'', JSymbol ''react.element''), (''type'', memo_value),
                     (''key'', JNull), (''ref'', JNull), (''props'', JObj [])]) # rest'))\<close>
proof -
  have number:
    "request_code (JObj [(''code'', JStr ''const MyComponent = 42;'')]) =
       JStr ''const MyComponent = 42;''"
    "''const MyComponent = 42;'' \<noteq> []"
    "transformSync demo_env (''const MyComponent = 42;'' @ trailer) babel_options demo_world =
       (Inr (Some (compiled number_source)), demo_world)"
    "compiled number_source \<noteq> []"
    "runFunction demo_env (''module'' # contextKeys) (compiled number_source)
       (ModuleRecord (JObj [(''exports'', JObj [])]) #
        contextValues (request_props (JObj [(''code'', JStr ''const MyComponent = 42;'')])))
       demo_world =
       (Inr (JObj [(''exports'', JNum (Finite 42))]), demo_world)"
    by (simp_all add: request_code_def demo_env_def compiled_def number_source_def
        demo_runFunction_def title_source_def memo_source_def)
  have memo:
    "request_code (JObj [(''code'', JStr memo_source)]) = JStr memo_source"
    "memo_source \<noteq> []"
    "transformSync demo_env (memo_source @ trailer) babel_options demo_world =
       (Inr (Some (compiled memo_source)), demo_world)"
    "compiled memo_source \<noteq> []"
    "runFunction demo_env (''module'' # contextKeys) (compiled memo_source)
       (ModuleRecord (JObj [(''exports'', JObj [])]) #
        contextValues (request_props (JObj [(''code'', JStr memo_source)])))
       demo_world =
       (Inr (JObj [(''exports'', memo_value)]), demo_world)"
    by (simp_all add: request_code_def demo_env_def compiled_def
        demo_runFunction_def title_source_def memo_source_def)
  show ?thesis
    using export_slot_validation [OF number] export_slot_validation [OF memo]
    by (auto simp: request_props_def contextKeys_def contextValues_def trailer_def
        demo_world_def demo_env_def demo_createElement_def memo_value_def compiled_def
        number_source_def)
qed

text \<open>
  Claim C2 as stated fails for a value that is not invokable but is a non-null object: the
  evaluation of \<^verbatim>\<open>const MyComponent = React.memo(...)\<close> leaves the memo object in the
  export slot, its \<^verbatim>\<open>typeof\<close> is \<^verbatim>\<open>object\<close>, the validation lets it through, and the
  response is a success.
\<close>

theorem memo_object_is_rendered:
  \<open>runFunction demo_env [''module'', ''React'', ''props'', ''console'', ''require'']
     (compiled memo_source)
     [ModuleRecord (JObj [(''exports'', JObj [])]), React, Props (JObj []), Console, Resolver]
     demo_world =
     (Inr (JObj [(''exports'', memo_value)]), demo_world)
   \<and> typeof memo_value = ''object''
   \<and> fst (render_handler demo_env (JObj [(''code'', JStr memo_source)]) demo_world) =
       Responded
         \<lparr>status = 200,
          payload = [(''success'', JBool True),
                     (''html'', JStr (completeHTML ''body { margin: 0; }'' ''<div>hi</div>'')),
                     (''message'', JStr ''Complete HTML document generated successfully'')]\<rparr>\<close>
  by (simp add: handler_defs demo_defs)

subsection \<open>An exception that leaves the handler\<close>

text \<open>
  Claim C3 at the submission \<^verbatim>\<open>throw Object.create(null);\<close>. The evaluation throws an
  object without prototype; the \<^verbatim>\<open>catch\<close> block reads \<^verbatim>\<open>error?.message\<close>, which is
  \<^verbatim>\<open>undefined\<close>, and turns to \<^verbatim>\<open>String(error)\<close>, which throws a TypeError inside the
  \<^verbatim>\<open>catch\<close> block. That exception leaves the handler: no response is written.
\<close>

theorem thrown_bare_object_escapes:
  \<open>render_handler demo_env (JObj [(''code'', JStr ''throw Object.create(null);'')]) demo_world =
     (Escaped, demo_world,
      [Transform ''throw Object.create(null);\<newline>module.exports = MyComponent;'' babel_options,
       Evaluate [''module'', ''React'', ''props'', ''console'', ''require'']
         ''"use strict";\<newline>\<newline>throw Object.create(null);\<newline>module.exports = MyComponent;''
         [ModuleRecord (JObj [(''exports'', JObj [])]), React, Props (JObj []), Console, Resolver]])\<close>
  by (simp add: handler_defs demo_defs)

subsection \<open>The members of a failure response\<close>

lemma render_try_shape:
  assumes "render_try env body w = (r, w', tr)"
  shows "(r = Inr \<lparr>status = 400, payload = no_code_fields\<rparr> \<and> w' = w \<and> tr = [])
         \<or> (\<exists>frag. r = Inr \<lparr>status = 200,
                       payload = success_fields (completeHTML (fst (load_css env w')) frag)\<rparr>
                \<and> ReadFile (cssPath env) \<in> set tr)
         \<or> ((\<exists>e. r = Inl e) \<and> (\<forall>q. ReadFile q \<notin> set tr))"
  using assms by (cases rule: run_cases) (auto simp: load_css_first_read)

lemma catch_fields:
  assumes "render_catch w error = Responded r"
  shows "map_of (payload r) ''error'' =
           (if truthy (exn_message error)
            then (if json_omitted (exn_message error) then None else Some (exn_message error))
            else map_option JStr (exn_string error))
         \<and> map_of (payload r) ''stack'' =
           (if node_env w = Some ''development'' \<and> \<not> json_omitted (exn_stack error)
            then Some (exn_stack error) else None)"
  using assms
  by (auto simp: render_catch_def res_json_def split: option.splits if_splits)

text \<open>
  Claim C9, as the code has it. Every failure response has status 400 and is either the
  validation failure, which has the two members \<^verbatim>\<open>success\<close> and \<^verbatim>\<open>error\<close> and never a
  stack, or the response of the \<^verbatim>\<open>catch\<close> block to a caught value. In the latter the member
  \<^verbatim>\<open>error\<close> is the value's message when that is truthy and the string form of the value
  otherwise, and the member \<^verbatim>\<open>stack\<close> is present exactly when \<^verbatim>\<open>NODE_ENV\<close> is
  \<^verbatim>\<open>development\<close> and the caught value has a stack that JSON can carry.
\<close>

theorem failure_response_fields:
  assumes "render_handler env body w = (Responded r, w', tr)"
    and "map_of (payload r) ''success'' = Some (JBool False)"
  shows "status r = 400 \<and>
         ((tr = [] \<and>
           payload r = [(''success'', JBool False), (''error'', JStr ''No code provided'')])
          \<or> (\<exists>error.
                render_try env body w = (Inl error, w', tr) \<and>
                map_of (payload r) ''error'' =
                  (if truthy (exn_message error)
                   then (if json_omitted (exn_message error) then None
                         else Some (exn_message error))
                   else map_option JStr (exn_string error)) \<and>
                map_of (payload r) ''stack'' =
                  (if node_env w' = Some ''development'' \<and> \<not> json_omitted (exn_stack error)
                   then Some (exn_stack error) else None)))"
proof -
  obtain x where x: "render_try env body w = (x, w', tr)"
    using assms(1) by (auto simp: render_handler_def split: prod.splits sum.splits)
  show ?thesis
  proof (cases x)
    case (Inl error)
    then have c: "render_catch w' error = Responded r"
      using assms(1) x by (simp add: render_handler_def)
    then show ?thesis
      using catch_fields [OF c] catch_is_failure [OF c] x Inl by blast
  next
    case (Inr resp)
    then have "resp = r" using assms(1) x by (simp add: render_handler_def)
    then show ?thesis using render_try_shape [OF x] Inr assms(2)
      by (auto simp: no_code_fields_def success_fields_def)
  qed
qed

text \<open>A ReferenceError caught in development mode: the response carries its message and
  its stack.\<close>

theorem failure_response_fields_witness:
  \<open>fst (render_handler demo_env (JObj [(''code'', JStr ''   '')])
          (demo_world\<lparr>node_env := Some ''development''\<rparr>)) =
     Responded
       \<lparr>status = 400,
        payload =
          [(''success'', JBool False),
           (''error'', JStr ''MyComponent is not defined''),
           (''stack'', JStr ''ReferenceError: MyComponent is not defined\<newline>    at eval (eval at <anonymous>)'')]\<rparr>
   \<and> (\<exists>error.
         render_try demo_env (JObj [(''code'', JStr ''   '')])
           (demo_world\<lparr>node_env := Some ''development''\<rparr>) =
           (Inl error,
            fst (snd (render_handler demo_env (JObj [(''code'', JStr ''   '')])
                        (demo_world\<lparr>node_env := Some ''development''\<rparr>))),
            snd (snd (render_handler demo_env (JObj [(''code'', JStr ''   '')])
                        (demo_world\<lparr>node_env := Some ''development''\<rparr>)))) \<and>
         exn_message error = JStr ''MyComponent is not defined'' \<and>
         exn_stack error = JStr ''ReferenceError: MyComponent is not defined\<newline>    at eval (eval at <anonymous>)'')\<close>
proof -
  let ?body = "JObj [(''code'', JStr ''   '')]"
  let ?w = "demo_world\<lparr>node_env := Some ''development''\<rparr>"
  let ?r = "\<lparr>status = 400,
             payload =
               [(''success'', JBool False),
                (''error'', JStr ''MyComponent is not defined''),
                (''stack'', JStr ''ReferenceError: MyComponent is not defined\<newline>    at eval (eval at <anonymous>)'')]\<rparr>"
  have out: "fst (render_handler demo_env ?body ?w) = Responded ?r"
    by (simp add: handler_defs demo_defs)
  have w: "fst (snd (render_handler demo_env ?body ?w)) = ?w"
    by (simp add: handler_defs demo_defs)
  have tr: "snd (snd (render_handler demo_env ?body ?w)) \<noteq> []"
    by (simp add: handler_defs demo_defs)
  have "map_of (payload ?r) ''success'' = Some (JBool False)" by simp
  from failure_response_fields [OF run_of_outcome [OF out] this] tr
  obtain error where e:
    "render_try demo_env ?body ?w =
       (Inl error, fst (snd (render_handler demo_env ?body ?w)),
        snd (snd (render_handler demo_env ?body ?w)))"
    by auto
  then have "error = reference_error"
    by (simp add: handler_defs demo_defs)
  then show ?thesis using out e
    by (auto simp: reference_error_def)
qed

text \<open>
  Claim C9 as stated fails twice. In development mode, which is outside any
  production-like mode, the validation failure carries no stack. And for
  \<^verbatim>\<open>throw new Error("")\<close> the member \<^verbatim>\<open>error\<close> is not the message of the error, which is
  empty, but the string form \<^verbatim>\<open>Error\<close>.
\<close>

theorem validation_failure_has_no_stack:
  \<open>render_handler demo_env (JObj [(''props'', JObj [])])
     (demo_world\<lparr>node_env := Some ''development''\<rparr>) =
     (Responded \<lparr>status = 400,
                 payload = [(''success'', JBool False), (''error'', JStr ''No code provided'')]\<rparr>,
      demo_world\<lparr>node_env := Some ''development''\<rparr>, [])
   \<and> fst (render_try demo_env (JObj [(''code'', JStr ''throw new Error("");'')])
            (demo_world\<lparr>node_env := Some ''production''\<rparr>)) = Inl empty_error
   \<and> exn_message empty_error = JStr []
   \<and> fst (render_handler demo_env (JObj [(''code'', JStr ''throw new Error("");'')])
            (demo_world\<lparr>node_env := Some ''production''\<rparr>)) =
       Responded \<lparr>status = 400,
                  payload = [(''success'', JBool False), (''error'', JStr ''Error'')]\<rparr>\<close>
  by (simp add: handler_defs demo_defs)

subsection \<open>What the error handler does report\<close>

lemma catch_responds:
  assumes "exn_printable error"
    and "truthy (exn_message error) \<or> (\<exists>s. exn_string error = Some s)"
    and "\<not> json_throws (exn_message error)" and "\<not> json_throws (exn_stack error)"
  shows "\<exists>r. render_catch w error = Responded r"
  using assms
  by (auto simp: render_catch_def res_json_def split: option.splits)

text \<open>
  What the error handler does guarantee. An exception thrown by any stage is caught, and
  when the console can print the caught value, the value has a truthy message or a string
  form, and neither its message nor its stack holds a BigInt, the request ends with a
  failure response of status 400 whose \<^verbatim>\<open>error\<close> member is that message or string form.
\<close>

theorem caught_exception_is_reported:
  assumes "render_try env body w = (Inl error, w', tr)"
    and "exn_printable error"
    and "truthy (exn_message error) \<or> (\<exists>s. exn_string error = Some s)"
    and "\<not> json_throws (exn_message error)" and "\<not> json_throws (exn_stack error)"
  shows "\<exists>r. render_handler env body w = (Responded r, w', tr) \<and>
             status r = 400 \<and>
             map_of (payload r) ''success'' = Some (JBool False) \<and>
             map_of (payload r) ''error'' =
               (if truthy (exn_message error)
                then (if json_omitted (exn_message error) then None
                      else Some (exn_message error))
                else map_option JStr (exn_string error))"
proof -
  obtain r where r: "render_catch w' error = Responded r"
    using catch_responds [OF assms(2,3,4,5)] by blast
  then have "render_handler env body w = (Responded r, w', tr)"
    using assms(1) by (simp add: render_handler_def)
  then show ?thesis
    using catch_fields [OF r] catch_is_failure [OF r] by blast
qed

text \<open>The ReferenceError of a submission that declares no \<^verbatim>\<open>MyComponent\<close>.\<close>

theorem caught_exception_is_reported_witness:
  \<open>render_try demo_env (JObj [(''code'', JStr ''   '')]) demo_world =
     (Inl reference_error, demo_world,
      [Transform ''   \<newline>module.exports = MyComponent;'' babel_options,
       Evaluate [''module'', ''React'', ''props'', ''console'', ''require'']
         ''"use strict";\<newline>\<newline>   \<newline>module.exports = MyComponent;''
         [ModuleRecord (JObj [(''exports'', JObj [])]), React, Props (JObj []), Console, Resolver]])
   \<and> (\<exists>r. fst (render_handler demo_env (JObj [(''code'', JStr ''   '')]) demo_world) = Responded r \<and>
            status r = 400 \<and>
            map_of (payload r) ''error'' = Some (JStr ''MyComponent is not defined''))\<close>
proof -
  let ?body = "JObj [(''code'', JStr ''   '')]"
  let ?tr = \<open>[Transform ''   \<newline>module.exports = MyComponent;'' babel_options,
       Evaluate [''module'', ''React'', ''props'', ''console'', ''require'']
         ''"use strict";\<newline>\<newline>   \<newline>module.exports = MyComponent;''
         [ModuleRecord (JObj [(''exports'', JObj [])]), React, Props (JObj []), Console, Resolver]]\<close>
  have t: "render_try demo_env ?body demo_world = (Inl reference_error, demo_world, ?tr)"
    by (simp add: handler_defs demo_defs)
  have m: "exn_printable reference_error"
    "truthy (exn_message reference_error) \<or> (\<exists>s. exn_string reference_error = Some s)"
    "\<not> json_throws (exn_message reference_error)" "\<not> json_throws (exn_stack reference_error)"
    by (simp_all add: reference_error_def)
  show ?thesis
    using caught_exception_is_reported [OF t m] t
    by (auto simp: reference_error_def)
qed

text \<open>
  A source the compiler rejects. When \<^verbatim>\<open>Babel.transformSync\<close> throws an error with a
  message, the request ends with status 400 and that message, and nothing is evaluated:
  the compiler call is the only call of the run.
\<close>

theorem compiler_error_is_reported:
  assumes "request_code body = JStr s" and "s \<noteq> []"
    and "transformSync env (s @ trailer) babel_options w = (Inl error, wc)"
    and "exn_printable error" and "exn_message error = JStr m" and "m \<noteq> []"
    and "\<not> json_throws (exn_stack error)"
  shows "\<exists>r. render_handler env body w =
               (Responded r, wc, [Transform (s @ trailer) babel_options]) \<and>
             status r = 400 \<and>
             map_of (payload r) ''success'' = Some (JBool False) \<and>
             map_of (payload r) ''error'' = Some (JStr m)"
proof -
  have "render_try env body w = (Inl error, wc, [Transform (s @ trailer) babel_options])"
    using assms(1,2,3) by (simp add: render_try_def transform_def Let_def)
  then have h: "render_handler env body w =
      (render_catch wc error, wc, [Transform (s @ trailer) babel_options])"
    by (simp add: render_handler_def)
  have "truthy (exn_message error) \<or> (\<exists>s. exn_string error = Some s)"
    and "\<not> json_throws (exn_message error)"
    using assms(5,6) by simp_all
  then obtain r where r: "render_catch wc error = Responded r"
    using catch_responds assms(4,7) by blast
  show ?thesis
    using h r catch_fields [OF r] catch_is_failure [OF r] assms(5,6) by auto
qed

text \<open>A host whose compiler rejects every source, asked to render an unclosed tag.\<close>

theorem compiler_error_is_reported_witness:
  \<open>\<exists>r. render_handler
          (demo_env\<lparr>transformSync := (\<lambda>src opts w.
             (Inl \<lparr>exn_printable = True,
                   exn_message = JStr ''user-code.jsx: Unexpected token (1:5)'',
                   exn_stack = JStr ''SyntaxError: user-code.jsx: Unexpected token (1:5)'',
                   exn_string = Some ''SyntaxError: user-code.jsx: Unexpected token (1:5)''\<rparr>, w))\<rparr>)
          (JObj [(''code'', JStr ''<div>'')]) demo_world =
          (Responded r, demo_world,
           [Transform ''<div>\<newline>module.exports = MyComponent;'' babel_options]) \<and>
        status r = 400 \<and>
        map_of (payload r) ''error'' = Some (JStr ''user-code.jsx: Unexpected token (1:5)'')\<close>
  using compiler_error_is_reported
    [of "JObj [(''code'', JStr ''<div>'')]" "''<div>''"
        "demo_env\<lparr>transformSync := (\<lambda>src opts w.
             (Inl \<lparr>exn_printable = True,
                   exn_message = JStr ''user-code.jsx: Unexpected token (1:5)'',
                   exn_stack = JStr ''SyntaxError: user-code.jsx: Unexpected token (1:5)'',
                   exn_string = Some ''SyntaxError: user-code.jsx: Unexpected token (1:5)''\<rparr>, w))\<rparr>"
        demo_world
        "\<lparr>exn_printable = True,
          exn_message = JStr ''user-code.jsx: Unexpected token (1:5)'',
          exn_stack = JStr ''SyntaxError: user-code.jsx: Unexpected token (1:5)'',
          exn_string = Some ''SyntaxError: user-code.jsx: Unexpected token (1:5)''\<rparr>"
        demo_world
        "''user-code.jsx: Unexpected token (1:5)''"]
  by (auto simp: request_code_def trailer_def)

text \<open>
  A compiler that returns no code. When the result of \<^verbatim>\<open>Babel.transformSync\<close> is null or
  its code is missing or empty, the request ends with status 400 and the message
  \<^verbatim>\<open>Babel transform failed\<close>, and nothing is evaluated.
\<close>

theorem empty_compiler_output_is_reported:
  assumes "request_code body = JStr s" and "s \<noteq> []"
    and "transformSync env (s @ trailer) babel_options w = (Inr None, wc) \<or>
         transformSync env (s @ trailer) babel_options w = (Inr (Some []), wc)"
  shows "render_handler env body w =
           (Responded
              \<lparr>status = 400,
               payload =
                 [(''success'', JBool False), (''error'', JStr ''Babel transform failed'')] @
                 (if node_env wc = Some ''development''
                  then [(''stack'', JStr (errorStack env ''Babel transform failed''))]
                  else [])\<rparr>,
            wc, [Transform (s @ trailer) babel_options])"
proof -
  have "render_try env body w =
      (Inl (new_Error env ''Babel transform failed''), wc,
       [Transform (s @ trailer) babel_options])"
    using assms by (auto simp: render_try_def transform_def Let_def)
  then have "render_handler env body w =
      (render_catch wc (new_Error env ''Babel transform failed''), wc,
       [Transform (s @ trailer) babel_options])"
    by (simp add: render_handler_def)
  then show ?thesis by (simp add: catch_new_Error)
qed

text \<open>A host whose compiler returns a null result.\<close>

theorem empty_compiler_output_is_reported_witness:
  \<open>render_handler (demo_env\<lparr>transformSync := (\<lambda>src opts w. (Inr None, w))\<rparr>)
     (JObj [(''code'', JStr ''x'')]) demo_world =
     (Responded \<lparr>status = 400,
                 payload = [(''success'', JBool False),
                            (''error'', JStr ''Babel transform failed'')]\<rparr>,
      demo_world, [Transform ''x\<newline>module.exports = MyComponent;'' babel_options])\<close>
  using empty_compiler_output_is_reported
    [of "JObj [(''code'', JStr ''x'')]" "''x''"
        "demo_env\<lparr>transformSync := (\<lambda>src opts w. (Inr None, w))\<rparr>" demo_world demo_world]
  by (simp add: request_code_def trailer_def demo_world_def)

subsection \<open>The source transformer\<close>



subsection \<open>The props of a request\<close>

lemma request_props_eq:
  "request_props body =
     (if get_prop body ''props'' = JUndefined then JObj [] else get_prop body ''props'')"
  by (cases body) (simp_all add: request_props_def Let_def)

text \<open>
  Claim C10. For a request whose code passes validation and compiles, and whatever its
  \<^verbatim>\<open>props\<close> is (absent, \<^verbatim>\<open>null\<close>, a number, a string, an array, an object): \<^verbatim>\<open>props\<close> is
  the empty object when the member is absent or \<^verbatim>\<open>undefined\<close> and the submitted value
  otherwise; the evaluator is called, with that value as its \<^verbatim>\<open>props\<close> binding; when the
  evaluation throws or leaves no valid component nothing more is called; and when it leaves
  a function or a non-null object in the export slot, the element constructor is called
  with the same value as its second argument. Nothing between the validation of the code
  and the element constructor looks at \<^verbatim>\<open>props\<close>, so no error is raised because of it.
\<close>

theorem props_pass_through:
  assumes "request_code body = JStr s" and "s \<noteq> []"
    and "transformSync env (s @ trailer) babel_options w = (Inr (Some js), wc)" and "js \<noteq> []"
  shows "request_props body =
           (if get_prop body ''props'' = JUndefined then JObj [] else get_prop body ''props'')
         \<and> (\<exists>rest.
               snd (snd (render_handler env body w)) =
                 Transform (s @ trailer) babel_options #
                 Evaluate [''module'', ''React'', ''props'', ''console'', ''require''] js
                   [ModuleRecord (JObj [(''exports'', JObj [])]), React,
                    Props (request_props body), Console, Resolver] # rest \<and>
               (case runFunction env [''module'', ''React'', ''props'', ''console'', ''require''] js
                       [ModuleRecord (JObj [(''exports'', JObj [])]), React,
                        Props (request_props body), Console, Resolver] wc of
                  (Inl e, we) \<Rightarrow> rest = []
                | (Inr moduleObj, we) \<Rightarrow>
                    if typeof (get_prop moduleObj ''exports'') = ''function'' \<or>
                       (typeof (get_prop moduleObj ''exports'') = ''object'' \<and>
                        get_prop moduleObj ''exports'' \<noteq> JNull)
                    then \<exists>rest'. rest =
                           CreateElement (get_prop moduleObj ''exports'') (request_props body) # rest'
                    else rest = []))"
proof -
  let ?p = "request_props body"
  let ?ps = "''module'' # contextKeys"
  let ?args = "ModuleRecord (JObj [(''exports'', JObj [])]) # contextValues ?p"
  let ?T = "Transform (s @ trailer) babel_options"
  let ?E = "Evaluate ?ps js ?args"
  have ps: "?ps = [''module'', ''React'', ''props'', ''console'', ''require'']"
    by (simp add: contextKeys_def)
  have args: "?args = [ModuleRecord (JObj [(''exports'', JObj [])]), React, Props ?p, Console,
                       Resolver]"
    by (simp add: contextValues_def)
  have run: "render_try env body w = after ?T (evaluate env js ?p wc)"
    using render_try_transforms [OF assms(1,2), of env w] transform_compiled [OF assms(3,4), of ?p]
    by simp
  have tr: "snd (snd (render_handler env body w)) = snd (snd (render_try env body w))"
    by (simp add: render_handler_def split: prod.splits sum.splits)
  obtain r we where r: "runFunction env ?ps js ?args wc = (r, we)"
    by (cases "runFunction env ?ps js ?args wc")
  have "\<exists>rest. snd (snd (render_try env body w)) = ?T # ?E # rest \<and>
          (case (r, we) of
             (Inl e, we) \<Rightarrow> rest = []
           | (Inr moduleObj, we) \<Rightarrow>
               if typeof (get_prop moduleObj ''exports'') = ''function'' \<or>
                  (typeof (get_prop moduleObj ''exports'') = ''object'' \<and>
                   get_prop moduleObj ''exports'' \<noteq> JNull)
               then \<exists>rest'. rest = CreateElement (get_prop moduleObj ''exports'') ?p # rest'
               else rest = [])"
  proof (cases r)
    case (Inl e)
    then show ?thesis
      using run r evaluate_thrown [of env js ?p wc e we] by simp
  next
    case (Inr m)
    let ?f = "get_prop m ''exports''"
    show ?thesis
    proof (cases "typeof ?f = ''function'' \<or> (typeof ?f = ''object'' \<and> ?f \<noteq> JNull)")
      case False
      have "evaluate env js ?p wc = (Inl (new_Error env no_component_message), we, [?E])"
        using r Inr False by (intro evaluate_invalid) auto
      then show ?thesis using run Inr False by simp
    next
      case True
      have ev: "evaluate env js ?p wc = after ?E (render_element env ?f ?p we)"
        using r Inr True by (intro evaluate_valid) auto
      obtain y wy ty where y: "render_element env ?f ?p we = (y, wy, ty)"
        using prod_cases3 by blast
      then have "\<exists>rest'. ty = CreateElement ?f ?p # rest'"
        by (auto simp: render_element_def assemble_eq split: sum.splits prod.splits)
      then show ?thesis using run ev y Inr True by auto
    qed
  qed
  then show ?thesis
    using tr r request_props_eq [of body] unfolding ps args by simp
qed

text \<open>A request with \<^verbatim>\<open>props: 7\<close>: the binding and the argument of the element constructor
  are both the number, and the response is a success.\<close>

theorem props_pass_through_witness:
  \<open>request_props (JObj [(''code'', JStr title_source), (''props'', JNum (Finite 7))]) =
     JNum (Finite 7)
   \<and> snd (snd (render_handler demo_env
                  (JObj [(''code'', JStr title_source), (''props'', JNum (Finite 7))])
                  demo_world)) =
       [Transform (title_source @ trailer) babel_options,
        Evaluate [''module'', ''React'', ''props'', ''console'', ''require'']
          (compiled title_source)
          [ModuleRecord (JObj [(''exports'', JObj [])]), React, Props (JNum (Finite 7)),
           Console, Resolver],
        CreateElement (JFun title_source) (JNum (Finite 7)),
        RenderToString
          (JObj [(''$$typeof'', JSymbol ''react.element''), (''type'', JFun title_source),
                 (''key'', JNull), (''ref'', JNull), (''props'', JObj [])]),
        ReadFile (cssPath demo_env)]
   \<and> fst (render_handler demo_env
            (JObj [(''code'', JStr title_source), (''props'', JNum (Finite 7))]) demo_world) =
       Responded \<lparr>status = 200,
                  payload = success_fields (completeHTML ''body { margin: 0; }'' ''<h1></h1>'')\<rparr>\<close>
proof -
  let ?body = "JObj [(''code'', JStr title_source), (''props'', JNum (Finite 7))]"
  have c: "request_code ?body = JStr title_source"
    by (simp add: request_code_def)
  have n: "title_source \<noteq> []" "compiled title_source \<noteq> []"
    by (simp_all add: title_source_def compiled_def)
  have t: "transformSync demo_env (title_source @ trailer) babel_options demo_world =
      (Inr (Some (compiled title_source)), demo_world)"
    by (simp add: demo_env_def compiled_def)
  have p: "request_props ?body = JNum (Finite 7)"
    using props_pass_through [OF c n(1) t n(2)] by simp
  have "snd (snd (render_handler demo_env ?body demo_world)) =
       [Transform (title_source @ trailer) babel_options,
        Evaluate [''module'', ''React'', ''props'', ''console'', ''require'']
          (compiled title_source)
          [ModuleRecord (JObj [(''exports'', JObj [])]), React, Props (JNum (Finite 7)),
           Console, Resolver],
        CreateElement (JFun title_source) (JNum (Finite 7)),
        RenderToString
          (JObj [(''$$typeof'', JSymbol ''react.element''), (''type'', JFun title_source),
                 (''key'', JNull), (''ref'', JNull), (''props'', JObj [])]),
        ReadFile (cssPath demo_env)]"
    by (simp add: handler_defs demo_defs)
  moreover have "fst (render_handler demo_env ?body demo_world) =
       Responded \<lparr>status = 200,
                  payload = success_fields (completeHTML ''body { margin: 0; }'' ''<h1></h1>'')\<rparr>"
    by (simp add: handler_defs demo_defs)
  ultimately show ?thesis using p by simp
qed

subsection \<open>The document of a successful response\<close>

lemma success_run:
  assumes "render_handler env body w = (Responded r, w', tr)"
    and "map_of (payload r) ''success'' = Some (JBool True)"
  shows "\<exists>s js wc moduleObj we element fragment.
           request_code body = JStr s \<and> s \<noteq> [] \<and>
           transformSync env (s @ trailer) babel_options w = (Inr (Some js), wc) \<and> js \<noteq> [] \<and>
           runFunction env (''module'' # contextKeys) js
             (ModuleRecord (JObj [(''exports'', JObj [])]) # contextValues (request_props body)) wc =
             (Inr moduleObj, we) \<and>
           (typeof (get_prop moduleObj ''exports'') = ''function'' \<or>
            (typeof (get_prop moduleObj ''exports'') = ''object'' \<and>
             get_prop moduleObj ''exports'' \<noteq> JNull)) \<and>
           createElement env (get_prop moduleObj ''exports'') (request_props body) = Inr element \<and>
           renderToString env element we = (Inr fragment, w') \<and>
           r = \<lparr>status = 200,
                payload = success_fields (completeHTML (fst (load_css env w')) fragment)\<rparr> \<and>
           tr = Transform (s @ trailer) babel_options #
                Evaluate (''module'' # contextKeys) js
                  (ModuleRecord (JObj [(''exports'', JObj [])]) #
                   contextValues (request_props body)) #
                CreateElement (get_prop moduleObj ''exports'') (request_props body) #
                RenderToString element # snd (load_css env w')"
proof -
  obtain x where x: "render_try env body w = (x, w', tr)"
    and out: "Responded r = (case x of Inl error \<Rightarrow> render_catch w' error | Inr r \<Rightarrow> Responded r)"
    using handler_of_try [OF assms(1)] by blast
  have ok: "x = Inr r"
  proof (cases x)
    case (Inl error)
    then have "render_catch w' error = Responded r" using out by simp
    then show ?thesis using catch_is_failure assms(2) by fastforce
  next
    case (Inr resp)
    then show ?thesis using out by simp
  qed
  from x show ?thesis
  proof (cases rule: run_cases)
    case rejected
    then show ?thesis using ok assms(2) by (simp add: no_code_fields_def)
  next
    case (document s js wc m we el frag)
    then show ?thesis using ok by blast
  qed (use ok in auto)
qed

lemma completeHTML_text:
  \<open>completeHTML css fragment =
     ''<!DOCTYPE html>\<newline>''
     @ ''<html lang="en">\<newline>''
     @ ''<head>\<newline>''
     @ ''    <meta charset="UTF-8">\<newline>''
     @ ''    <meta name="viewport" content="width=device-width, initial-scale=1.0">\<newline>''
     @ ''    <title>React Component</title>\<newline>''
     @ ''    <style>\<newline>''
     @ ''        '' @ css @ ''\<newline>''
     @ ''    </style>\<newline>''
     @ ''</head>\<newline>''
     @ ''<body>\<newline>''
     @ ''    <div id="app">\<newline>''
     @ ''        '' @ fragment @ ''\<newline>''
     @ ''    </div>\<newline>''
     @ ''    \<newline>''
     @ ''</body>\<newline>''
     @ ''</html>''\<close>
  by (simp add: completeHTML_def)

text \<open>
  Claim C6. Every successful response has status 200 and comes from a run that compiled,
  evaluated, constructed an element and rendered it. Its \<^verbatim>\<open>html\<close> is the document template,
  character for character, around two texts: inside the style block the stylesheet as the
  files hold it at the end of the run (the text at \<open>cssPath\<close>, else the text at
  \<open>altCssPath\<close>, else nothing), and inside \<^verbatim>\<open><div id="app">\<close> the fragment that the renderer
  returned for the element. The document begins with \<^verbatim>\<open><!DOCTYPE html>\<close>; its \<^verbatim>\<open>html\<close>,
  \<^verbatim>\<open>head\<close> and \<^verbatim>\<open>body\<close> elements open and close in order; the head holds the charset and
  viewport metadata and the title.
\<close>

theorem success_document:
  assumes "render_handler env body w = (Responded r, w', tr)"
    and "map_of (payload r) ''success'' = Some (JBool True)"
  shows \<open>\<exists>s js wc moduleObj we element fragment.
           request_code body = JStr s \<and>
           transformSync env (s @ trailer) babel_options w = (Inr (Some js), wc) \<and>
           runFunction env (''module'' # contextKeys) js
             (ModuleRecord (JObj [(''exports'', JObj [])]) # contextValues (request_props body)) wc =
             (Inr moduleObj, we) \<and>
           createElement env (get_prop moduleObj ''exports'') (request_props body) = Inr element \<and>
           renderToString env element we = (Inr fragment, w') \<and>
           status r = 200 \<and>
           map_of (payload r) ''html'' =
             Some (JStr (''<!DOCTYPE html>\<newline>''
                         @ ''<html lang="en">\<newline>''
                         @ ''<head>\<newline>''
                         @ ''    <meta charset="UTF-8">\<newline>''
                         @ ''    <meta name="viewport" content="width=device-width, initial-scale=1.0">\<newline>''
                         @ ''    <title>React Component</title>\<newline>''
                         @ ''    <style>\<newline>''
                         @ ''        ''
                         @ (case files w' (cssPath env) of
                              Some css \<Rightarrow> css
                            | None \<Rightarrow> (case files w' (altCssPath env) of
                                         Some css \<Rightarrow> css
                                       | None \<Rightarrow> []))
                         @ ''\<newline>''
                         @ ''    </style>\<newline>''
                         @ ''</head>\<newline>''
                         @ ''<body>\<newline>''
                         @ ''    <div id="app">\<newline>''
                         @ ''        '' @ fragment @ ''\<newline>''
                         @ ''    </div>\<newline>''
                         @ ''    \<newline>''
                         @ ''</body>\<newline>''
                         @ ''</html>''))\<close>
proof -
  obtain s js wc m we el frag where path:
    "request_code body = JStr s"
    "transformSync env (s @ trailer) babel_options w = (Inr (Some js), wc)"
    "runFunction env (''module'' # contextKeys) js
       (ModuleRecord (JObj [(''exports'', JObj [])]) # contextValues (request_props body)) wc =
       (Inr m, we)"
    "createElement env (get_prop m ''exports'') (request_props body) = Inr el"
    "renderToString env el we = (Inr frag, w')"
    "r = \<lparr>status = 200, payload = success_fields (completeHTML (fst (load_css env w')) frag)\<rparr>"
    using success_run [OF assms] by blast
  have "status r = 200" and
    "map_of (payload r) ''html'' = Some (JStr (completeHTML (fst (load_css env w')) frag))"
    using path(6) by (simp_all add: success_fields_def)
  then show ?thesis
    unfolding completeHTML_text load_css_text using path(1-5) by blast
qed

text \<open>The document answered for the title component with \<^verbatim>\<open>props = { title: "Hi" }\<close>,
  written out.\<close>

theorem success_document_witness:
  \<open>fst (render_handler demo_env
          (JObj [(''code'', JStr title_source), (''props'', JObj [(''title'', JStr ''Hi'')])])
          demo_world) =
     Responded
       \<lparr>status = 200,
        payload =
          [(''success'', JBool True),
           (''html'',
            JStr (''<!DOCTYPE html>\<newline>''
                  @ ''<html lang="en">\<newline>''
                  @ ''<head>\<newline>''
                  @ ''    <meta charset="UTF-8">\<newline>''
                  @ ''    <meta name="viewport" content="width=device-width, initial-scale=1.0">\<newline>''
                  @ ''    <title>React Component</title>\<newline>''
                  @ ''    <style>\<newline>''
                  @ ''        body { margin: 0; }\<newline>''
                  @ ''    </style>\<newline>''
                  @ ''</head>\<newline>''
                  @ ''<body>\<newline>''
                  @ ''    <div id="app">\<newline>''
                  @ ''        <h1>Hi</h1>\<newline>''
                  @ ''    </div>\<newline>''
                  @ ''    \<newline>''
                  @ ''</body>\<newline>''
                  @ ''</html>'')),
           (''message'', JStr ''Complete HTML document generated successfully'')]\<rparr>
   \<and> (\<exists>element.
         renderToString demo_env element demo_world = (Inr ''<h1>Hi</h1>'', demo_world) \<and>
         RenderToString element \<in>
           set (snd (snd (render_handler demo_env
                  (JObj [(''code'', JStr title_source),
                         (''props'', JObj [(''title'', JStr ''Hi'')])])
                  demo_world))))\<close>
proof -
  let ?body = "JObj [(''code'', JStr title_source), (''props'', JObj [(''title'', JStr ''Hi'')])]"
  let ?r = "\<lparr>status = 200,
             payload = success_fields (completeHTML ''body { margin: 0; }'' ''<h1>Hi</h1>'')\<rparr>"
  have out: "fst (render_handler demo_env ?body demo_world) = Responded ?r"
    by (simp add: handler_defs demo_defs)
  have tr: "snd (snd (render_handler demo_env ?body demo_world)) =
      [Transform (title_source @ trailer) babel_options,
       Evaluate [''module'', ''React'', ''props'', ''console'', ''require'']
         (compiled title_source)
         [ModuleRecord (JObj [(''exports'', JObj [])]), React,
          Props (JObj [(''title'', JStr ''Hi'')]), Console, Resolver],
       CreateElement (JFun title_source) (JObj [(''title'', JStr ''Hi'')]),
       RenderToString
         (JObj [(''$$typeof'', JSymbol ''react.element''), (''type'', JFun title_source),
                (''key'', JNull), (''ref'', JNull), (''props'', JObj [(''title'', JStr ''Hi'')])]),
       ReadFile (cssPath demo_env)]"
    by (simp add: handler_defs demo_defs)
  have w: "fst (snd (render_handler demo_env ?body demo_world)) = demo_world"
    by (simp add: handler_defs demo_defs)
  have ok: "map_of (payload ?r) ''success'' = Some (JBool True)"
    by (simp add: success_fields_def)
  obtain el frag we where
    "renderToString demo_env el we = (Inr frag, demo_world)"
    "createElement demo_env (JFun title_source) (JObj [(''title'', JStr ''Hi'')]) = Inr el"
    using success_document [OF run_of_outcome [OF out] ok] w
    by (auto simp: request_props_def request_code_def demo_env_def demo_runFunction_def
        compiled_def trailer_def title_source_def)
  have "renderToString demo_env
      (JObj [(''$$typeof'', JSymbol ''react.element''), (''type'', JFun title_source),
             (''key'', JNull), (''ref'', JNull), (''props'', JObj [(''title'', JStr ''Hi'')])])
      demo_world = (Inr ''<h1>Hi</h1>'', demo_world)"
    by (simp add: demo_env_def demo_renderToString_def)
  then show ?thesis
    using out tr by (auto simp: success_fields_def completeHTML_def)
qed

subsection \<open>The stylesheet that cannot be read\<close>



subsection \<open>Shared state across requests\<close>

















end
